theory Spec2Isabelle
  imports
    Main
    "HOL-Library.Sublist"
    "HOL-Library.Char_ord"
    "HOL-Library.List_Lexorder"
begin

section \<open>The match table\<close>

text \<open>
  \<^verbatim>\<open>generate_blog.py\<close> reads a CSV of finished matches into a pandas frame, reshapes it into
  one row per team and match, groups the rows by team, and fills an HTML template with the
  result.  The frame returned by \<^verbatim>\<open>pd.read_csv\<close> is modelled as a list of rows.  Every cell
  is optional: an empty CSV cell is read as NaN, here \<open>None\<close>.  Goal cells that are present
  hold integers; they are assumed small enough for sums in \<^verbatim>\<open>int64\<close> and \<^verbatim>\<open>float64\<close>
  to be exact.
\<close>

record match_row =
  Date :: "string option"
  HOME :: "string option"
  AWAY :: "string option"
  H_GOALS :: "int option"
  A_GOALS :: "int option"

datatype column = Date_col | HOME_col | AWAY_col | H_GOALS_col | A_GOALS_col

datatype py_error = KeyError | IndexError | FileNotFoundError | PermissionError

fun notna :: "column \<Rightarrow> match_row \<Rightarrow> bool" where
  "notna Date_col r = (Date r \<noteq> None)"
| "notna HOME_col r = (HOME r \<noteq> None)"
| "notna AWAY_col r = (AWAY r \<noteq> None)"
| "notna H_GOALS_col r = (H_GOALS r \<noteq> None)"
| "notna A_GOALS_col r = (A_GOALS r \<noteq> None)"

text \<open>
  \<^verbatim>\<open>df.dropna(axis=1, how='all')\<close>: a column is kept when some row has a value in it.  A
  frame with no rows keeps no column.  The result is the list of the columns kept; other
  columns of the CSV play no role.
\<close>

definition dropna :: "match_row list \<Rightarrow> column list" where
  "dropna df =
     filter (\<lambda>c. list_ex (notna c) df) [Date_col, HOME_col, AWAY_col, H_GOALS_col, A_GOALS_col]"

section \<open>The team-centric view\<close>

text \<open>A row of \<^verbatim>\<open>home_df\<close>, \<^verbatim>\<open>away_df\<close> and \<^verbatim>\<open>all_matches\<close>.\<close>

record team_row =
  match_Date :: "string option"
  TEAM :: "string option"
  GOALS_FOR :: "int option"
  GOALS_AGAINST :: "int option"
  RESULT :: "int option"

text \<open>Subtraction of two cells: NaN when either is NaN.\<close>

fun minus_cell :: "int option \<Rightarrow> int option \<Rightarrow> int option" where
  "minus_cell (Some a) (Some b) = Some (a - b)"
| "minus_cell _ _ = None"

definition home_row :: "match_row \<Rightarrow> team_row" where
  "home_row r =
     \<lparr>match_Date = Date r, TEAM = HOME r, GOALS_FOR = H_GOALS r, GOALS_AGAINST = A_GOALS r,
      RESULT = minus_cell (H_GOALS r) (A_GOALS r)\<rparr>"

definition away_row :: "match_row \<Rightarrow> team_row" where
  "away_row r =
     \<lparr>match_Date = Date r, TEAM = AWAY r, GOALS_FOR = A_GOALS r, GOALS_AGAINST = H_GOALS r,
      RESULT = minus_cell (A_GOALS r) (H_GOALS r)\<rparr>"

text \<open>
  Selecting a list of columns raises \<^verbatim>\<open>KeyError\<close> when one of them is not in the frame
  (lines 22 and 26, after the \<^verbatim>\<open>dropna\<close> of line 19).
\<close>

definition home_df :: "match_row list \<Rightarrow> py_error + team_row list" where
  "home_df df =
     (if list_all (\<lambda>c. c \<in> set (dropna df)) [Date_col, HOME_col, H_GOALS_col, A_GOALS_col]
      then Inr (map home_row df) else Inl KeyError)"

definition away_df :: "match_row list \<Rightarrow> py_error + team_row list" where
  "away_df df =
     (if list_all (\<lambda>c. c \<in> set (dropna df)) [Date_col, AWAY_col, A_GOALS_col, H_GOALS_col]
      then Inr (map away_row df) else Inl KeyError)"

text \<open>
  The outcome columns of lines 34 to 36.  A comparison with NaN is false, so a row with a
  missing result is no win, no draw and no loss.
\<close>

definition IS_WIN :: "team_row \<Rightarrow> int" where
  "IS_WIN m = (case RESULT m of Some x \<Rightarrow> (if 0 < x then 1 else 0) | None \<Rightarrow> 0)"



section \<open>Grouping by team\<close>

text \<open>
  A sum of goal cells carries the type of its column: \<^verbatim>\<open>int64\<close> when no cell of the
  column is NaN, \<^verbatim>\<open>float64\<close> otherwise.  The value is an integer in both cases; the type
  decides how the number is printed.
\<close>

datatype number = Int64 int | Float64 int


text \<open>
  A quotient of two counts rounded to two decimals, as a number of hundredths, or one of
  the special values that a division by zero gives.
\<close>

datatype float64 = NaN | Fin int | PosInf

record team_summary =
  team :: string
  matches_played :: int
  total_goals_for :: number
  total_goals_against :: number
  total_wins :: int
  win_rate :: float64

text \<open>
  \<^verbatim>\<open>groupby('TEAM')\<close> leaves out the rows whose key is NaN and orders the groups by key.
\<close>

definition group_keys :: "team_row list \<Rightarrow> string list" where
  "group_keys ms = sort (remdups (List.map_filter TEAM ms))"

definition group_of :: "string \<Rightarrow> team_row list \<Rightarrow> team_row list" where
  "group_of k ms = filter (\<lambda>m. TEAM m = Some k) ms"

text \<open>\<^verbatim>\<open>count\<close> counts the cells that are not NaN; \<^verbatim>\<open>sum\<close> skips NaN cells.\<close>

definition count_col :: "(team_row \<Rightarrow> 'a option) \<Rightarrow> team_row list \<Rightarrow> int" where
  "count_col f g = int (length (filter (\<lambda>m. f m \<noteq> None) g))"

fun skipna :: "int option \<Rightarrow> int" where
  "skipna (Some v) = v"
| "skipna None = 0"

definition sum_cells :: "(team_row \<Rightarrow> int option) \<Rightarrow> team_row list \<Rightarrow> int" where
  "sum_cells f g = sum_list (map (\<lambda>m. skipna (f m)) g)"

definition sum_col :: "(team_row \<Rightarrow> int option) \<Rightarrow> team_row list \<Rightarrow> team_row list \<Rightarrow> number" where
  "sum_col f ms g =
     (if list_ex (\<lambda>m. f m = None) ms then Float64 (sum_cells f g) else Int64 (sum_cells f g))"

text \<open>
  \<^verbatim>\<open>(total_wins / matches_played).round(2)\<close> on two counts.  Division by zero gives NaN
  or infinity and raises nothing.  The quotient is rounded to the nearest hundredth.  When
  it lies exactly between two hundredths the binary floating-point computation may land on
  either; \<open>tie w m\<close> says whether it goes up for the counts \<open>w\<close> and \<open>m\<close>, and every
  statement below holds for each choice of \<open>tie\<close>.
\<close>

type_synonym tie_rule = "int \<Rightarrow> int \<Rightarrow> bool"

definition divide_round2 :: "tie_rule \<Rightarrow> int \<Rightarrow> int \<Rightarrow> float64" where
  "divide_round2 tie w m =
     (if m = 0 then (if w = 0 then NaN else PosInf)
      else let q = (100 * w) div m; r = (100 * w) mod m
           in Fin (if 2 * r < m then q
                   else if m < 2 * r then q + 1
                   else if tie w m then q + 1 else q))"

text \<open>Rounding half to even, the resolution that exact arithmetic would give.\<close>

definition half_even :: tie_rule where
  "half_even w m = odd ((100 * w) div m)"

definition agg :: "tie_rule \<Rightarrow> team_row list \<Rightarrow> string \<Rightarrow> team_summary" where
  "agg tie ms k =
     (let g = group_of k ms;
          played = count_col match_Date g;
          wins = sum_list (map IS_WIN g)
      in \<lparr>team = k, matches_played = played,
          total_goals_for = sum_col GOALS_FOR ms g,
          total_goals_against = sum_col GOALS_AGAINST ms g,
          total_wins = wins,
          win_rate = divide_round2 tie wins played\<rparr>)"

definition summarize :: "tie_rule \<Rightarrow> team_row list \<Rightarrow> team_summary list" where
  "summarize tie ms = map (agg tie ms) (group_keys ms)"

section \<open>Findings\<close>

text \<open>
  \<^verbatim>\<open>sort_values('win_rate', ascending=False)\<close>: descending, NaN last.  Rows of equal
  \<^verbatim>\<open>win_rate\<close> keep their order here, as numpy's sort does on short tables; on long
  tables numpy may order them differently, and the first row has the largest
  \<^verbatim>\<open>win_rate\<close> either way.
\<close>

fun rate_less :: "float64 \<Rightarrow> float64 \<Rightarrow> bool" where
  "rate_less NaN NaN = False"
| "rate_less NaN _ = True"
| "rate_less (Fin a) (Fin b) = (a < b)"
| "rate_less (Fin a) PosInf = True"
| "rate_less _ _ = False"

fun insert_desc :: "team_summary \<Rightarrow> team_summary list \<Rightarrow> team_summary list" where
  "insert_desc x [] = [x]"
| "insert_desc x (y # ys) =
     (if rate_less (win_rate x) (win_rate y) then y # insert_desc x ys else x # y # ys)"

definition sort_values :: "team_summary list \<Rightarrow> team_summary list" where
  "sort_values ts = foldr insert_desc ts []"

definition iloc0 :: "'a list \<Rightarrow> py_error + 'a" where
  "iloc0 xs = (case xs of [] \<Rightarrow> Inl IndexError | x # _ \<Rightarrow> Inr x)"

text \<open>Decimal digits of a natural number, and Python's \<^verbatim>\<open>str\<close> of an integer.\<close>

definition digit_char :: "nat \<Rightarrow> char" where
  "digit_char d = ''0123456789'' ! d"

fun digits :: "nat \<Rightarrow> string" where
  "digits n = (if n < 10 then [digit_char n] else digits (n div 10) @ [digit_char (n mod 10)])"

declare digits.simps [simp del]

definition str_int :: "int \<Rightarrow> string" where
  "str_int i = (if i < 0 then ''-'' @ digits (nat (- i)) else digits (nat i))"

text \<open>The format \<^verbatim>\<open>:.2f\<close> of a rounded quotient.\<close>

fun format_2f :: "float64 \<Rightarrow> string" where
  "format_2f NaN = ''nan''"
| "format_2f PosInf = ''inf''"
| "format_2f (Fin h) =
     str_int (h div 100) @ ''.'' @ [digit_char (nat (h mod 100) div 10), digit_char (nat (h mod 100) mod 10)]"

definition finding :: "team_summary \<Rightarrow> string" where
  "finding top_team =
     ''The team with the highest win rate is '' @ team top_team @
     '' with a win rate of '' @ format_2f (win_rate top_team) @ ''.''"

section \<open>The aggregator\<close>

text \<open>Lines 22 to 31: the home view followed by the away view.\<close>

definition all_matches :: "match_row list \<Rightarrow> py_error + team_row list" where
  "all_matches df =
     (case home_df df of
        Inl e \<Rightarrow> Inl e
      | Inr home \<Rightarrow> (case away_df df of Inl e \<Rightarrow> Inl e | Inr away \<Rightarrow> Inr (home @ away)))"

text \<open>
  The argument \<open>df\<close> is the frame that \<^verbatim>\<open>pd.read_csv(csv_url)\<close> returns.  The result is
  the error raised, or the pair of the summary table and the findings.
\<close>

definition fetch_and_process_data ::
  "tie_rule \<Rightarrow> match_row list \<Rightarrow> py_error + (team_summary list \<times> string list)" where
  "fetch_and_process_data tie df =
     (case all_matches df of
        Inl e \<Rightarrow> Inl e
      | Inr ms \<Rightarrow>
          (let summary = summarize tie ms
           in case iloc0 (sort_values summary) of
                Inl e \<Rightarrow> Inl e
              | Inr top_team \<Rightarrow> Inr (summary, [finding top_team])))"

section \<open>The renderer\<close>

text \<open>
  \<^verbatim>\<open>str.replace(old, new)\<close>: the occurrences of \<open>old\<close> are found from left to right
  without overlap, and each is replaced by \<open>new\<close>.  An empty \<open>old\<close> matches before every
  character and at the end.
\<close>

fun replace :: "string \<Rightarrow> string \<Rightarrow> string \<Rightarrow> string" where
  "replace old new [] = (if old = [] then new else [])"
| "replace old new (c # cs) =
     (if old = [] then new @ c # replace old new cs
      else if prefix old (c # cs) then new @ replace old new (drop (length old - 1) cs)
      else c # replace old new cs)"

text \<open>
  The value of \<^verbatim>\<open>datetime.now()\<close> and its format \<^verbatim>\<open>%Y-%m-%d %H:%M:%S\<close>: each field in
  decimal, padded with zeros to four digits for the year and to two for the others.
\<close>

record datetime =
  year :: nat
  month :: nat
  day :: nat
  hour :: nat
  minute :: nat
  second :: nat

definition zfill :: "nat \<Rightarrow> string \<Rightarrow> string" where
  "zfill n s = replicate (n - length s) (CHR ''0'') @ s"

definition strftime :: "datetime \<Rightarrow> string" where
  "strftime d =
     zfill 4 (digits (year d)) @ ''-'' @ zfill 2 (digits (month d)) @ ''-'' @
     zfill 2 (digits (day d)) @ '' '' @ zfill 2 (digits (hour d)) @ '':'' @
     zfill 2 (digits (minute d)) @ '':'' @ zfill 2 (digits (second d))"

text \<open>
  What the renderer reads besides its arguments: the files on disk, which paths can be
  opened for writing, and the clock.
\<close>

record world =
  files :: "string \<rightharpoonup> string"
  writable :: "string \<Rightarrow> bool"
  now :: datetime

text \<open>
  Python's \<^verbatim>\<open>str\<close> of a sum of goals: an integer prints its digits, a float of integer
  value prints them followed by \<^verbatim>\<open>.0\<close>.
\<close>

fun str_number :: "number \<Rightarrow> string" where
  "str_number (Int64 i) = str_int i"
| "str_number (Float64 i) = str_int i @ ''.0''"

text \<open>The table row of lines 68 to 77, with the line breaks and indentation of the source.\<close>

definition row_html :: "team_summary \<Rightarrow> string" where
  "row_html row =
     ''\<newline>        <tr>\<newline>            <td>'' @ team row @
     ''</td>\<newline>            <td>'' @ str_int (matches_played row) @
     ''</td>\<newline>            <td>'' @ str_number (total_goals_for row) @
     ''</td>\<newline>            <td>'' @ str_number (total_goals_against row) @
     ''</td>\<newline>            <td>'' @ str_int (total_wins row) @
     ''</td>\<newline>            <td>'' @ format_2f (win_rate row) @
     ''</td>\<newline>        </tr>\<newline>        ''"

definition team_summary_rows :: "team_summary list \<Rightarrow> string" where
  "team_summary_rows ts = foldl (\<lambda>acc row. acc @ row_html row) [] ts"

definition interesting_findings :: "string list \<Rightarrow> string" where
  "interesting_findings fs = foldl (\<lambda>acc f. acc @ ''<li>'' @ f @ ''</li>'') [] fs"

text \<open>Lines 89 to 91: the three replacements, in this order.\<close>

definition fill_template :: "datetime \<Rightarrow> team_summary list \<Rightarrow> string list \<Rightarrow> string \<Rightarrow> string" where
  "fill_template clock ts fs html_content =
     replace ''{{interesting_findings}}'' (interesting_findings fs)
       (replace ''{{team_summary_rows}}'' (team_summary_rows ts)
          (replace ''{{last_updated}}'' (strftime clock) html_content))"

text \<open>
  \<^verbatim>\<open>generate_html(team_summary, findings, output_path)\<close>.  The template is read from the
  fixed path \<^verbatim>\<open>index.html\<close>; the result is the world with the output file written, or the
  error raised by one of the two \<^verbatim>\<open>open\<close> calls.  A template that cannot be read counts
  as missing, and every failure to open the output for writing as \<^verbatim>\<open>PermissionError\<close>.
\<close>

definition generate_html ::
  "world \<Rightarrow> team_summary list \<Rightarrow> string list \<Rightarrow> string \<Rightarrow> py_error + world" where
  "generate_html w ts fs output_path =
     (case files w ''index.html'' of
        None \<Rightarrow> Inl FileNotFoundError
      | Some html_content \<Rightarrow>
          if writable w output_path
          then Inr (w\<lparr>files := (files w)(output_path \<mapsto> fill_template (now w) ts fs html_content)\<rparr>)
          else Inl PermissionError)"

section \<open>The program\<close>

definition OUTPUT_PATH :: string where
  "OUTPUT_PATH = ''index.html''"

text \<open>
  Lines 104 and 105.  The argument \<open>df\<close> is the frame read from \<^verbatim>\<open>CSV_URL\<close>.
\<close>

definition main :: "tie_rule \<Rightarrow> world \<Rightarrow> match_row list \<Rightarrow> py_error + world" where
  "main tie w df =
     (case fetch_and_process_data tie df of
        Inl e \<Rightarrow> Inl e
      | Inr (ts, fs) \<Rightarrow> generate_html w ts fs OUTPUT_PATH)"

section \<open>Vocabulary for the statements\<close>

text \<open>
  Every required column has a value in some row.  Otherwise \<^verbatim>\<open>dropna\<close> removes a column
  that lines 22 and 26 select.
\<close>

definition columns_kept :: "match_row list \<Rightarrow> bool" where
  "columns_kept df \<longleftrightarrow>
     list_ex (notna Date_col) df \<and> list_ex (notna HOME_col) df \<and> list_ex (notna AWAY_col) df \<and>
     list_ex (notna H_GOALS_col) df \<and> list_ex (notna A_GOALS_col) df"






text \<open>A table in the order that \<open>sort_values\<close> produces.\<close>

fun descending :: "team_summary list \<Rightarrow> bool" where
  "descending [] = True"
| "descending (x # xs) = ((\<forall>y\<in>set xs. \<not> rate_less (win_rate x) (win_rate y)) \<and> descending xs)"

subsection \<open>Example inputs\<close>

text \<open>The one-match input of the specification.\<close>

definition one_match :: "match_row list" where
  "one_match =
     [\<lparr>Date = Some ''2024-01-01'', HOME = Some ''A'', AWAY = Some ''B'',
       H_GOALS = Some 2, A_GOALS = Some 0\<rparr>]"

text \<open>A second match whose home goals are missing.\<close>

definition missing_goal_example :: "match_row list" where
  "missing_goal_example =
     [\<lparr>Date = Some ''2024-01-01'', HOME = Some ''A'', AWAY = Some ''B'',
       H_GOALS = Some 2, A_GOALS = Some 0\<rparr>,
      \<lparr>Date = Some ''2024-01-02'', HOME = Some ''C'', AWAY = Some ''D'',
       H_GOALS = None, A_GOALS = Some 1\<rparr>]"

text \<open>A second match whose date is missing.\<close>

definition missing_date_example :: "match_row list" where
  "missing_date_example =
     [\<lparr>Date = Some ''2024-01-01'', HOME = Some ''A'', AWAY = Some ''B'',
       H_GOALS = Some 2, A_GOALS = Some 0\<rparr>,
      \<lparr>Date = None, HOME = Some ''C'', AWAY = Some ''D'',
       H_GOALS = Some 1, A_GOALS = Some 0\<rparr>]"


text \<open>The summary rows of the one-match input.\<close>

definition row_A :: team_summary where
  "row_A = \<lparr>team = ''A'', matches_played = 1, total_goals_for = Int64 2,
            total_goals_against = Int64 0, total_wins = 1, win_rate = Fin 100\<rparr>"

definition row_B :: team_summary where
  "row_B = \<lparr>team = ''B'', matches_played = 1, total_goals_for = Int64 0,
            total_goals_against = Int64 2, total_wins = 0, win_rate = Fin 0\<rparr>"

subsection \<open>Time stamps\<close>

definition decimal_digits :: "char set" where
  "decimal_digits = set ''0123456789''"



subsection \<open>Example pages\<close>

text \<open>The template of the specification, and a world that holds it at \<^verbatim>\<open>index.html\<close>.\<close>

definition example_template :: string where
  "example_template =
     ''<p>{{last_updated}}</p><table>{{team_summary_rows}}</table><ul>{{interesting_findings}}</ul>''"

definition example_clock :: datetime where
  "example_clock = \<lparr>year = 2024, month = 1, day = 2, hour = 3, minute = 4, second = 5\<rparr>"

definition later_clock :: datetime where
  "later_clock = \<lparr>year = 2024, month = 1, day = 3, hour = 6, minute = 7, second = 8\<rparr>"

definition example_world :: world where
  "example_world =
     \<lparr>files = [''index.html'' \<mapsto> example_template], writable = (\<lambda>path. True),
      now = example_clock\<rparr>"

definition one_match_finding :: string where
  "one_match_finding = ''The team with the highest win rate is A with a win rate of 1.00.''"

text \<open>
  The page for the one-match input: the time stamp, then the two table rows and the
  finding.
\<close>

definition one_match_table :: string where
  "one_match_table =
     ''</p><table>\<newline>        <tr>\<newline>            <td>A</td>\<newline>            <td>1</td>\<newline>            <td>2</td>\<newline>            <td>0</td>\<newline>            <td>1</td>\<newline>            <td>1.00</td>\<newline>        </tr>\<newline>        \<newline>        <tr>\<newline>            <td>B</td>\<newline>            <td>1</td>\<newline>            <td>0</td>\<newline>            <td>2</td>\<newline>            <td>0</td>\<newline>            <td>0.00</td>\<newline>        </tr>\<newline>        </table><ul><li>The team with the highest win rate is A with a win rate of 1.00.</li></ul>''"

definition one_match_page :: "string \<Rightarrow> string" where
  "one_match_page stamp = ''<p>'' @ stamp @ one_match_table"

section \<open>Properties of the team-centric view\<close>

lemma dropna_mem: "c \<in> set (dropna df) \<longleftrightarrow> (\<exists>r\<in>set df. notna c r)"
  by (cases c) (auto simp: dropna_def list_ex_iff)


lemma all_matches_eq:
  "all_matches df =
     (if columns_kept df then Inr (map home_row df @ map away_row df) else Inl KeyError)"
  by (auto simp: all_matches_def home_df_def away_df_def dropna_mem columns_kept_def list_ex_iff
      simp del: notna.simps)

lemma TEAM_home_row: "TEAM (home_row r) = HOME r"
  by (simp add: home_row_def)

lemma TEAM_away_row: "TEAM (away_row r) = AWAY r"
  by (simp add: away_row_def)

text \<open>
  Evaluation of the aggregator on a concrete frame unfolds these definitions.
\<close>

lemmas run_defs =
  fetch_and_process_data_def all_matches_def home_df_def away_df_def dropna_def
  home_row_def away_row_def summarize_def agg_def group_keys_def group_of_def
  map_filter_simps count_col_def sum_col_def sum_cells_def IS_WIN_def divide_round2_def
  sort_values_def iloc0_def finding_def str_int_def digits.simps digit_char_def Let_def

lemma one_match_run:
  "fetch_and_process_data tie one_match =
     Inr ([row_A, row_B],
          [''The team with the highest win rate is A with a win rate of 1.00.''])"
  by (simp add: one_match_def row_A_def row_B_def run_defs)



section \<open>Properties of grouping\<close>

lemma set_map_filter_conv: "set (List.map_filter f xs) = {y. \<exists>x\<in>set xs. f x = Some y}"
  by (induction xs) (auto simp: map_filter_simps split: option.splits)

lemma set_group_keys: "set (group_keys ms) = {k. \<exists>m\<in>set ms. TEAM m = Some k}"
  by (simp add: group_keys_def set_map_filter_conv)

lemma set_group_keys_views:
  "set (group_keys (map home_row df @ map away_row df)) =
     {t. \<exists>r\<in>set df. HOME r = Some t \<or> AWAY r = Some t}"
  by (simp add: set_group_keys bex_Un TEAM_home_row TEAM_away_row) blast

lemma distinct_group_keys: "distinct (group_keys ms)"
  by (simp add: group_keys_def)

lemma team_agg: "team (agg tie ms k) = k"
  by (simp add: agg_def Let_def)

lemma map_team_summarize: "map team (summarize tie ms) = group_keys ms"
  by (simp add: summarize_def team_agg comp_def)

lemma group_nonempty: "k \<in> set (group_keys ms) \<Longrightarrow> group_of k ms \<noteq> []"
  by (auto simp: set_group_keys group_of_def filter_empty_conv)



lemma count_col_all:
  "\<forall>m\<in>set g. f m \<noteq> None \<Longrightarrow> count_col f g = int (length g)"
  by (simp add: count_col_def)




lemma IS_WIN_bounds: "0 \<le> IS_WIN m \<and> IS_WIN m \<le> 1"
  by (simp add: IS_WIN_def split: option.splits)

lemma sum_IS_WIN_bounds:
  "0 \<le> sum_list (map IS_WIN g) \<and> sum_list (map IS_WIN g) \<le> int (length g)"
proof (induction g)
  case Nil
  then show ?case by simp
next
  case (Cons m g)
  then show ?case using IS_WIN_bounds[of m] by simp
qed

lemma divide_round2_bounds:
  assumes "0 \<le> w" and "w \<le> m" and "0 < m"
  shows "\<exists>h. divide_round2 tie w m = Fin h \<and> 0 \<le> h \<and> h \<le> 100"
proof -
  define q where "q = (100 * w) div m"
  define r where "r = (100 * w) mod m"
  have q0: "0 \<le> q" using assms by (simp add: q_def pos_imp_zdiv_nonneg_iff)
  have r0: "0 \<le> r" "r < m" using assms by (simp_all add: r_def)
  have eq: "100 * w = q * m + r" by (simp add: q_def r_def)
  have q100: "q \<le> 100"
  proof (rule ccontr)
    assume "\<not> q \<le> 100"
    then have "101 \<le> q" by simp
    then have "101 * m \<le> q * m" using assms by (simp add: mult_right_mono)
    with eq r0 assms show False by linarith
  qed
  have below: "q \<le> 99" if "0 < r"
  proof (rule ccontr)
    assume "\<not> q \<le> 99"
    with q100 have "q = 100" by simp
    with eq have "100 * w = 100 * m + r" by simp
    with assms that show False by linarith
  qed
  have "divide_round2 tie w m =
          Fin (if 2 * r < m then q else if m < 2 * r then q + 1 else if tie w m then q + 1 else q)"
    using assms by (simp add: divide_round2_def Let_def q_def r_def)
  moreover have "0 < r" if "\<not> 2 * r < m" using that assms r0 by linarith
  ultimately show ?thesis
    using q0 q100 below by auto
qed

lemma summary_row_bounds:
  assumes "s \<in> set (summarize tie ms)" and "\<forall>m\<in>set ms. match_Date m \<noteq> None"
  shows "total_wins s \<le> matches_played s \<and> 0 < matches_played s \<and>
         (\<exists>h. win_rate s = Fin h \<and> 0 \<le> h \<and> h \<le> 100)"
proof -
  from assms(1) obtain k where k: "k \<in> set (group_keys ms)" and s: "s = agg tie ms k"
    by (auto simp: summarize_def)
  define g where "g = group_of k ms"
  have g_ne: "g \<noteq> []" using k by (simp add: g_def group_nonempty)
  have "\<forall>m\<in>set g. match_Date m \<noteq> None" using assms(2) by (auto simp: g_def group_of_def)
  then have played: "count_col match_Date g = int (length g)" by (rule count_col_all)
  have pos: "0 < int (length g)" using g_ne by simp
  have wins: "0 \<le> sum_list (map IS_WIN g)" "sum_list (map IS_WIN g) \<le> int (length g)"
    using sum_IS_WIN_bounds[of g] by simp_all
  from divide_round2_bounds[OF wins pos, of tie]
  show ?thesis
    using wins pos by (simp add: s agg_def Let_def g_def[symmetric] played)
qed




section \<open>Properties of the sort\<close>

lemma set_insert_desc: "set (insert_desc x ys) = insert x (set ys)"
  by (induction ys) auto

lemma set_sort_values: "set (sort_values ts) = set ts"
  unfolding sort_values_def by (induction ts) (auto simp: set_insert_desc)

lemma rate_less_irrefl: "\<not> rate_less a a"
  by (cases a) auto

lemma rate_less_asym: "rate_less a b \<Longrightarrow> \<not> rate_less b a"
  by (cases a; cases b) auto

lemma rate_not_less_trans: "\<not> rate_less a b \<Longrightarrow> \<not> rate_less b c \<Longrightarrow> \<not> rate_less a c"
  by (cases a; cases b; cases c) auto

lemma descending_insert_desc: "descending ys \<Longrightarrow> descending (insert_desc x ys)"
proof (induction ys)
  case Nil
  then show ?case by simp
next
  case (Cons y ys)
  show ?case
  proof (cases "rate_less (win_rate x) (win_rate y)")
    case True
    with Cons show ?thesis
      by (auto simp: set_insert_desc dest: rate_less_asym)
  next
    case False
    with Cons show ?thesis
      by (auto dest: rate_not_less_trans)
  qed
qed

lemma descending_sort_values: "descending (sort_values ts)"
  unfolding sort_values_def by (induction ts) (auto simp: descending_insert_desc)

lemma iloc0_sort_values:
  assumes "ts \<noteq> []"
  shows "\<exists>t. iloc0 (sort_values ts) = Inr t \<and> t \<in> set ts \<and>
           (\<forall>s\<in>set ts. \<not> rate_less (win_rate t) (win_rate s))"
proof (cases "sort_values ts")
  case Nil
  then have "set ts = {}" using set_sort_values[of ts] by simp
  with assms show ?thesis by simp
next
  case (Cons t rest)
  have d: "descending (t # rest)" using descending_sort_values[of ts] Cons by simp
  have s: "set ts = insert t (set rest)" using set_sort_values[of ts] Cons by simp
  show ?thesis
    using d s Cons by (auto simp: iloc0_def rate_less_irrefl)
qed

section \<open>Properties of the aggregator\<close>

lemma fetch_eq:
  "fetch_and_process_data tie df =
     (if columns_kept df
      then (case iloc0 (sort_values (summarize tie (map home_row df @ map away_row df))) of
              Inl e \<Rightarrow> Inl e
            | Inr t \<Rightarrow> Inr (summarize tie (map home_row df @ map away_row df), [finding t]))
      else Inl KeyError)"
  by (simp add: fetch_and_process_data_def all_matches_eq Let_def)

lemma fetch_Inr:
  assumes "fetch_and_process_data tie df = Inr (summary, findings)"
  shows "columns_kept df" and "all_matches df = Inr (map home_row df @ map away_row df)"
    and "summary = summarize tie (map home_row df @ map away_row df)"
  using assms by (auto simp: fetch_eq all_matches_eq split: if_splits sum.splits)

lemma columns_kept_keys:
  assumes "columns_kept df"
  shows "group_keys (map home_row df @ map away_row df) \<noteq> []"
proof -
  from assms obtain r where "r \<in> set df" "HOME r \<noteq> None"
    by (auto simp: columns_kept_def list_ex_iff)
  then obtain k where "HOME r = Some k" by auto
  with \<open>r \<in> set df\<close> have "k \<in> set (group_keys (map home_row df @ map away_row df))"
    by (auto simp: set_group_keys_views)
  then show ?thesis by auto
qed

lemma columns_kept_run:
  assumes "columns_kept df"
  shows "\<exists>t. fetch_and_process_data tie df =
               Inr (summarize tie (map home_row df @ map away_row df), [finding t]) \<and>
             t \<in> set (summarize tie (map home_row df @ map away_row df)) \<and>
             (\<forall>s\<in>set (summarize tie (map home_row df @ map away_row df)).
                \<not> rate_less (win_rate t) (win_rate s))"
proof -
  define ms where "ms = map home_row df @ map away_row df"
  have "summarize tie ms \<noteq> []"
    using columns_kept_keys[OF assms] by (simp add: summarize_def ms_def)
  from iloc0_sort_values[OF this] obtain t where
    t: "iloc0 (sort_values (summarize tie ms)) = Inr t" "t \<in> set (summarize tie ms)"
       "\<forall>s\<in>set (summarize tie ms). \<not> rate_less (win_rate t) (win_rate s)"
    by blast
  have "fetch_and_process_data tie df = Inr (summarize tie ms, [finding t])"
    using assms t(1) by (simp add: fetch_eq ms_def)
  with t(2,3) show ?thesis
    unfolding ms_def by blast
qed

lemma complete_columns_kept:
  assumes "df \<noteq> []"
    and "\<forall>r\<in>set df. Date r \<noteq> None \<and> HOME r \<noteq> None \<and> AWAY r \<noteq> None \<and>
                     H_GOALS r \<noteq> None \<and> A_GOALS r \<noteq> None"
  shows "columns_kept df"
proof -
  from assms(1) obtain r where "r \<in> set df" by (cases df) auto
  with assms(2) show ?thesis
    by (auto simp: columns_kept_def list_ex_iff)
qed




text \<open>
  Claim C2.  On every input on which the column selection succeeds (each required column
  has a value in some row, so the input is not empty), the aggregator returns exactly one
  finding.  It is the sentence of line 52 for a row of the summary table whose
  \<^verbatim>\<open>win_rate\<close> no other row exceeds, with the \<^verbatim>\<open>win_rate\<close> in the format \<^verbatim>\<open>:.2f\<close>.  For the
  one-match input the finding is the sentence for team A with 1.00.
\<close>

theorem top_team_finding:
  "(columns_kept df \<longrightarrow>
      (\<exists>summary t.
          fetch_and_process_data tie df =
            Inr (summary,
                 [''The team with the highest win rate is '' @ team t @
                  '' with a win rate of '' @ format_2f (win_rate t) @ ''.'']) \<and>
          t \<in> set summary \<and>
          (\<forall>s\<in>set summary. \<not> rate_less (win_rate t) (win_rate s)))) \<and>
   fetch_and_process_data tie one_match =
     Inr ([row_A, row_B],
          [''The team with the highest win rate is A with a win rate of 1.00.''])"
proof
  show "columns_kept df \<longrightarrow>
      (\<exists>summary t.
          fetch_and_process_data tie df =
            Inr (summary,
                 [''The team with the highest win rate is '' @ team t @
                  '' with a win rate of '' @ format_2f (win_rate t) @ ''.'']) \<and>
          t \<in> set summary \<and>
          (\<forall>s\<in>set summary. \<not> rate_less (win_rate t) (win_rate s)))"
  proof
    assume "columns_kept df"
    from columns_kept_run[OF this, of tie] show "\<exists>summary t.
          fetch_and_process_data tie df =
            Inr (summary,
                 [''The team with the highest win rate is '' @ team t @
                  '' with a win rate of '' @ format_2f (win_rate t) @ ''.'']) \<and>
          t \<in> set summary \<and>
          (\<forall>s\<in>set summary. \<not> rate_less (win_rate t) (win_rate s))"
      unfolding finding_def by blast
  qed
  show "fetch_and_process_data tie one_match =
     Inr ([row_A, row_B],
          [''The team with the highest win rate is A with a win rate of 1.00.''])"
    by (rule one_match_run)
qed

theorem top_team_finding_witness:
  "columns_kept missing_goal_example \<and>
   (\<exists>summary t.
      fetch_and_process_data half_even missing_goal_example =
        Inr (summary,
             [''The team with the highest win rate is '' @ team t @
              '' with a win rate of '' @ format_2f (win_rate t) @ ''.'']) \<and>
      t \<in> set summary \<and>
      (\<forall>s\<in>set summary. \<not> rate_less (win_rate t) (win_rate s)))"
proof -
  have kept: "columns_kept missing_goal_example"
    by (simp add: columns_kept_def missing_goal_example_def)
  with top_team_finding[of missing_goal_example half_even] show ?thesis by blast
qed

text \<open>
  Claim C4, as amended.  When every record of the input carries a date, every row of the
  summary table that the aggregator returns has \<^verbatim>\<open>total_wins\<close> at most
  \<^verbatim>\<open>matches_played\<close>, \<^verbatim>\<open>matches_played\<close> positive, and a \<^verbatim>\<open>win_rate\<close> between 0 and 1
  (between 0 and 100 hundredths).
\<close>

theorem summary_invariants:
  assumes "fetch_and_process_data tie df = Inr (summary, findings)"
    and "\<forall>r\<in>set df. Date r \<noteq> None"
    and "s \<in> set summary"
  shows "total_wins s \<le> matches_played s \<and> 0 < matches_played s \<and>
         (\<exists>h. win_rate s = Fin h \<and> 0 \<le> h \<and> h \<le> 100)"
proof -
  note f = fetch_Inr[OF assms(1)]
  have "\<forall>m\<in>set (map home_row df @ map away_row df). match_Date m \<noteq> None"
    using assms(2) by (auto simp: home_row_def away_row_def)
  with assms(3) f(3) show ?thesis
    using summary_row_bounds by blast
qed

theorem summary_invariants_witness:
  "fetch_and_process_data half_even one_match =
     Inr ([row_A, row_B],
          [''The team with the highest win rate is A with a win rate of 1.00.'']) \<and>
   total_wins row_A \<le> matches_played row_A \<and> 0 < matches_played row_A \<and>
   (\<exists>h. win_rate row_A = Fin h \<and> 0 \<le> h \<and> h \<le> 100)"
proof -
  have run: "fetch_and_process_data half_even one_match =
     Inr ([row_A, row_B],
          [''The team with the highest win rate is A with a win rate of 1.00.''])"
    by (rule one_match_run)
  have dates: "\<forall>r\<in>set one_match. Date r \<noteq> None" by (simp add: one_match_def)
  have mem: "row_A \<in> set [row_A, row_B]" by simp
  from summary_invariants[OF run dates mem] run show ?thesis by simp
qed

text \<open>
  Claim C4 as stated fails on a two-match input whose second record has no date:
  \<^verbatim>\<open>matches_played\<close> counts the dates that are present, so team C has no match played and
  one win, and its \<^verbatim>\<open>win_rate\<close> is infinite; team D's is NaN.
\<close>

theorem summary_invariants_counterexample:
  "fetch_and_process_data half_even missing_date_example =
     Inr ([\<lparr>team = ''A'', matches_played = 1, total_goals_for = Int64 2,
            total_goals_against = Int64 0, total_wins = 1, win_rate = Fin 100\<rparr>,
           \<lparr>team = ''B'', matches_played = 1, total_goals_for = Int64 0,
            total_goals_against = Int64 2, total_wins = 0, win_rate = Fin 0\<rparr>,
           \<lparr>team = ''C'', matches_played = 0, total_goals_for = Int64 1,
            total_goals_against = Int64 0, total_wins = 1, win_rate = PosInf\<rparr>,
           \<lparr>team = ''D'', matches_played = 0, total_goals_for = Int64 0,
            total_goals_against = Int64 1, total_wins = 0, win_rate = NaN\<rparr>],
          [''The team with the highest win rate is C with a win rate of inf.''])"
  by (simp add: missing_date_example_def run_defs)

text \<open>
  Claim C5.  On every input on which the column selection succeeds, the aggregator returns
  a summary table whose team names are exactly the names that occur as home team or as
  away team of some record, each in one row only.
\<close>

theorem summary_teams:
  assumes "columns_kept df"
  shows "\<exists>summary findings.
           fetch_and_process_data tie df = Inr (summary, findings) \<and>
           distinct (map team summary) \<and>
           set (map team summary) = {t. \<exists>r\<in>set df. HOME r = Some t \<or> AWAY r = Some t}"
proof -
  from columns_kept_run[OF assms, of tie] obtain t where
    "fetch_and_process_data tie df =
       Inr (summarize tie (map home_row df @ map away_row df), [finding t])"
    by blast
  then show ?thesis
    by (simp add: map_team_summarize distinct_group_keys set_group_keys_views del: set_map)
qed

theorem summary_teams_witness:
  "columns_kept one_match \<and>
   (\<exists>summary findings.
      fetch_and_process_data half_even one_match = Inr (summary, findings) \<and>
      distinct (map team summary) \<and>
      set (map team summary) = {t. \<exists>r\<in>set one_match. HOME r = Some t \<or> AWAY r = Some t})"
proof -
  have kept: "columns_kept one_match"
    by (simp add: columns_kept_def one_match_def)
  from summary_teams[OF kept, of half_even] kept show ?thesis by blast
qed





section \<open>Properties of replace\<close>

lemma replace_no_occurrence:
  "old \<noteq> [] \<Longrightarrow> \<not> sublist old s \<Longrightarrow> replace old new s = s"
  by (induction s) (auto simp: sublist_Cons_right)

lemma replace_through:
  "old \<noteq> [] \<Longrightarrow> hd old \<notin> set xs \<Longrightarrow> replace old new (xs @ b) = xs @ replace old new b"
proof (induction xs)
  case Nil
  then show ?case by simp
next
  case (Cons x xs)
  then obtain k ks where old: "old = k # ks" by (cases old) auto
  with Cons show ?case by simp
qed

lemma replace_at_head:
  assumes "old \<noteq> []"
  shows "replace old new (old @ b) = new @ replace old new b"
proof -
  from assms obtain k ks where old: "old = k # ks" by (cases old) auto
  show ?thesis by (simp add: old)
qed

lemma replace_first:
  assumes "old \<noteq> []" and "\<not> sublist old (a @ butlast old)"
  shows "replace old new (a @ old @ b) = a @ new @ replace old new b"
  using assms(2)
proof (induction a)
  case Nil
  show ?case using replace_at_head[OF assms(1)] by simp
next
  case (Cons x a)
  have no_prefix: "\<not> prefix old (x # a @ old @ b)"
  proof
    assume p: "prefix old (x # a @ old @ b)"
    have q: "prefix ((x # a) @ butlast old) (x # a @ old @ b)"
      using assms(1) by (simp add: prefixeq_butlast)
    have "length old \<le> length ((x # a) @ butlast old)" by simp
    from prefix_length_prefix[OF p q this] have "sublist old ((x # a) @ butlast old)"
      by (rule prefix_imp_sublist)
    with Cons.prems show False by simp
  qed
  have "\<not> sublist old (a @ butlast old)"
    using Cons.prems by (simp add: sublist_Cons_right)
  with Cons.IH no_prefix assms(1) show ?case by simp
qed



section \<open>Properties of the time stamp\<close>

lemma digit_char_digit: "d < 10 \<Longrightarrow> digit_char d \<in> decimal_digits"
  unfolding digit_char_def decimal_digits_def by (rule nth_mem) simp

lemma digits_small: "n < 10 \<Longrightarrow> digits n = [digit_char n]"
  by (subst digits.simps) simp

lemma digits_large: "\<not> n < 10 \<Longrightarrow> digits n = digits (n div 10) @ [digit_char (n mod 10)]"
  by (subst digits.simps) simp

lemma set_digits: "set (digits n) \<subseteq> decimal_digits"
proof (induction n rule: digits.induct)
  case (1 n)
  show ?case
  proof (cases "n < 10")
    case True
    have "digit_char n \<in> decimal_digits" using True by (rule digit_char_digit)
    then show ?thesis by (simp add: digits_small[OF True])
  next
    case False
    have d: "digit_char (n mod 10) \<in> decimal_digits" by (rule digit_char_digit) simp
    have "set (digits (n div 10)) \<subseteq> decimal_digits" using 1 False by blast
    with d show ?thesis by (simp add: digits_large[OF False])
  qed
qed


lemma set_zfill_digits: "set (zfill k (digits n)) \<subseteq> decimal_digits"
proof -
  have "CHR ''0'' \<in> decimal_digits" by (simp add: decimal_digits_def)
  with set_digits[of n] show ?thesis by (auto simp: zfill_def)
qed


lemma brace_not_digit: "CHR ''{'' \<notin> decimal_digits" "CHR ''}'' \<notin> decimal_digits"
  by (simp_all add: decimal_digits_def)

lemma set_strftime:
  "set (strftime d) \<subseteq> decimal_digits \<union> {CHR ''-'', CHR '' '', CHR '':''}"
  using set_zfill_digits[of 4 "year d"] set_zfill_digits[of 2 "month d"]
    set_zfill_digits[of 2 "day d"] set_zfill_digits[of 2 "hour d"]
    set_zfill_digits[of 2 "minute d"] set_zfill_digits[of 2 "second d"]
  by (simp add: strftime_def) blast

lemma strftime_no_brace: "CHR ''{'' \<notin> set (strftime d)" "CHR ''}'' \<notin> set (strftime d)"
  using set_strftime[of d] brace_not_digit by auto





section \<open>Properties of the renderer\<close>

lemma sublist_append_right: "sublist xs zs \<Longrightarrow> sublist xs (ys @ zs)"
  by (simp add: sublist_append)

lemma team_summary_rows_one_match:
  "''</p><table>'' @ team_summary_rows [row_A, row_B] @
   ''</table><ul>'' @ interesting_findings [one_match_finding] @ ''</ul>'' = one_match_table"
  by (simp add: team_summary_rows_def interesting_findings_def row_html_def row_A_def row_B_def
      one_match_finding_def one_match_table_def str_int_def digits.simps digit_char_def)

lemma no_brace_in_rows: "CHR ''{'' \<notin> set (team_summary_rows [row_A, row_B])"
  by (simp add: team_summary_rows_def row_html_def row_A_def row_B_def
      str_int_def digits.simps digit_char_def)

lemma fill_one_match:
  "fill_template c [row_A, row_B] [one_match_finding] example_template =
     one_match_page (strftime c)"
proof -
  let ?ts = "strftime c"
  let ?R = "team_summary_rows [row_A, row_B]"
  let ?F = "interesting_findings [one_match_finding]"
  have s1: "replace ''{{last_updated}}'' ?ts example_template =
      (''<p>'' @ ?ts) @ ''</p><table>{{team_summary_rows}}</table><ul>{{interesting_findings}}</ul>''"
    by (simp add: example_template_def)
  have "replace ''{{team_summary_rows}}'' ?R
          ((''<p>'' @ ?ts) @ ''</p><table>{{team_summary_rows}}</table><ul>{{interesting_findings}}</ul>'') =
        (''<p>'' @ ?ts) @ replace ''{{team_summary_rows}}'' ?R
           ''</p><table>{{team_summary_rows}}</table><ul>{{interesting_findings}}</ul>''"
    by (rule replace_through) (simp_all add: strftime_no_brace)
  also have "replace ''{{team_summary_rows}}'' ?R
           ''</p><table>{{team_summary_rows}}</table><ul>{{interesting_findings}}</ul>'' =
        (''</p><table>'' @ ?R) @ ''</table><ul>{{interesting_findings}}</ul>''"
    by simp
  finally have s2: "replace ''{{team_summary_rows}}'' ?R
          ((''<p>'' @ ?ts) @ ''</p><table>{{team_summary_rows}}</table><ul>{{interesting_findings}}</ul>'') =
        (''<p>'' @ ?ts @ ''</p><table>'' @ ?R) @ ''</table><ul>{{interesting_findings}}</ul>''"
    by simp
  have "replace ''{{interesting_findings}}'' ?F
          ((''<p>'' @ ?ts @ ''</p><table>'' @ ?R) @ ''</table><ul>{{interesting_findings}}</ul>'') =
        (''<p>'' @ ?ts @ ''</p><table>'' @ ?R) @
          replace ''{{interesting_findings}}'' ?F ''</table><ul>{{interesting_findings}}</ul>''"
    by (rule replace_through) (simp_all add: strftime_no_brace no_brace_in_rows)
  also have "replace ''{{interesting_findings}}'' ?F ''</table><ul>{{interesting_findings}}</ul>'' =
        ''</table><ul>'' @ ?F @ ''</ul>''"
    by simp
  finally have s3: "replace ''{{interesting_findings}}'' ?F
          ((''<p>'' @ ?ts @ ''</p><table>'' @ ?R) @ ''</table><ul>{{interesting_findings}}</ul>'') =
        ''<p>'' @ ?ts @ (''</p><table>'' @ ?R @ ''</table><ul>'' @ ?F @ ''</ul>'')"
    by simp
  show ?thesis
    unfolding fill_template_def s1 s2 s3 team_summary_rows_one_match one_match_page_def ..
qed

lemma no_brace_in_table: "CHR ''{'' \<notin> set one_match_table" "CHR ''}'' \<notin> set one_match_table"
  by (simp_all add: one_match_table_def)

lemma one_match_page_no_braces:
  "\<not> sublist ''{{'' (one_match_page (strftime c))" "\<not> sublist ''}}'' (one_match_page (strftime c))"
proof -
  have l: "CHR ''{'' \<notin> set (one_match_page (strftime c))"
    by (simp add: one_match_page_def strftime_no_brace no_brace_in_table)
  have r: "CHR ''}'' \<notin> set (one_match_page (strftime c))"
    by (simp add: one_match_page_def strftime_no_brace no_brace_in_table)
  show "\<not> sublist ''{{'' (one_match_page (strftime c))"
    using l set_mono_sublist[of "''{{''" "one_match_page (strftime c)"] by auto
  show "\<not> sublist ''}}'' (one_match_page (strftime c))"
    using r set_mono_sublist[of "''}}''" "one_match_page (strftime c)"] by auto
qed

lemma one_match_page_contents:
  "sublist ''A'' (one_match_page stamp)" "sublist ''1.00'' (one_match_page stamp)"
proof -
  have a: "sublist ''A'' one_match_table"
    by (simp add: one_match_table_def sublist_Cons_right)
  have b: "sublist ''1.00'' one_match_table"
    by (simp add: one_match_table_def sublist_Cons_right)
  show "sublist ''A'' (one_match_page stamp)"
    unfolding one_match_page_def by (intro sublist_append_right a)
  show "sublist ''1.00'' (one_match_page stamp)"
    unfolding one_match_page_def by (intro sublist_append_right b)
qed


lemma fill_template_unchanged:
  assumes "\<not> sublist ''{{last_updated}}'' page"
    and "\<not> sublist ''{{team_summary_rows}}'' page"
    and "\<not> sublist ''{{interesting_findings}}'' page"
  shows "fill_template c ts fs page = page"
  using assms by (simp add: fill_template_def replace_no_occurrence)


lemma strftime_example_clock: "strftime example_clock = ''2024-01-02 03:04:05''"
  by (simp add: strftime_def example_clock_def zfill_def digits.simps digit_char_def)





text \<open>
  Claim C7.  A replacement is literal and global, for each of the three placeholders as
  for any non-empty token: a text without the token is unchanged, and in a text with the
  token the first occurrence is replaced by the new text and the rest is treated alike.
  The page is the template after the replacements for \<^verbatim>\<open>{{last_updated}}\<close>,
  \<^verbatim>\<open>{{team_summary_rows}}\<close> and \<^verbatim>\<open>{{interesting_findings}}\<close>.  For the template of the
  specification and the summary and finding of the one-match input, the page written has
  no \<^verbatim>\<open>{{\<close> and no \<^verbatim>\<open>}}\<close> left and contains \<^verbatim>\<open>A\<close> and \<^verbatim>\<open>1.00\<close>.
\<close>

theorem placeholder_substitution:
  "(old \<noteq> [] \<and> \<not> sublist old s \<longrightarrow> replace old new s = s) \<and>
   (old \<noteq> [] \<and> \<not> sublist old (a @ butlast old) \<longrightarrow>
      replace old new (a @ old @ b) = a @ new @ replace old new b) \<and>
   fill_template c ts fs html =
     replace ''{{interesting_findings}}'' (interesting_findings fs)
       (replace ''{{team_summary_rows}}'' (team_summary_rows ts)
          (replace ''{{last_updated}}'' (strftime c) html)) \<and>
   (files w ''index.html'' = Some example_template \<and> writable w path \<longrightarrow>
      generate_html w [row_A, row_B] [one_match_finding] path =
        Inr (w\<lparr>files := (files w)(path \<mapsto> one_match_page (strftime (now w)))\<rparr>) \<and>
      \<not> sublist ''{{'' (one_match_page (strftime (now w))) \<and>
      \<not> sublist ''}}'' (one_match_page (strftime (now w))) \<and>
      sublist ''A'' (one_match_page (strftime (now w))) \<and>
      sublist ''1.00'' (one_match_page (strftime (now w))))"
  using replace_no_occurrence[of old s new] replace_first[of old a new b]
    one_match_page_no_braces[of "now w"] one_match_page_contents[of "strftime (now w)"]
  by (auto simp: fill_template_def generate_html_def fill_one_match[unfolded fill_template_def])

theorem placeholder_substitution_witness:
  "replace ''{{last_updated}}'' ''now'' ''<p>no token</p>'' = ''<p>no token</p>'' \<and>
   replace ''{{last_updated}}'' ''now'' (''<p>'' @ ''{{last_updated}}'' @ ''</p>{{last_updated}}'') =
     ''<p>'' @ ''now'' @ replace ''{{last_updated}}'' ''now'' ''</p>{{last_updated}}'' \<and>
   generate_html example_world [row_A, row_B] [one_match_finding] ''page.html'' =
     Inr (example_world\<lparr>files := (files example_world)(''page.html'' \<mapsto>
            one_match_page ''2024-01-02 03:04:05'')\<rparr>) \<and>
   \<not> sublist ''{{'' (one_match_page ''2024-01-02 03:04:05'') \<and>
   sublist ''1.00'' (one_match_page ''2024-01-02 03:04:05'')"
proof -
  have f: "files example_world ''index.html'' = Some example_template"
    by (simp add: example_world_def)
  have wr: "writable example_world ''page.html''" by (simp add: example_world_def)
  have c: "now example_world = example_clock" by (simp add: example_world_def)
  have n1: "\<not> sublist ''{{last_updated}}'' ''<p>no token</p>''"
    by (simp add: sublist_Cons_right)
  have n2: "\<not> sublist ''{{last_updated}}'' (''<p>'' @ butlast ''{{last_updated}}'')"
    by (simp add: sublist_Cons_right)
  from placeholder_substitution[of "''{{last_updated}}''" "''<p>no token</p>''" "''now''"
      "''<p>''" "''</p>{{last_updated}}''" example_clock "[]" "[]" "[]" example_world "''page.html''"]
    f wr n1 n2
  show ?thesis by (simp add: c strftime_example_clock)
qed

text \<open>
  Claim C9.  The output path of the program is the path the template is read from, so a
  run overwrites the template with the page it renders, and the next run reads that page
  as its template.  When the page has none of the three placeholders left, the next run
  writes it back unchanged, whatever its data and clock.
\<close>

theorem template_is_overwritten:
  "OUTPUT_PATH = ''index.html'' \<and>
   (files w ''index.html'' = Some template \<and> writable w ''index.html'' \<and>
    fetch_and_process_data tie df = Inr (ts, fs) \<and>
    fetch_and_process_data tie df2 = Inr (ts2, fs2) \<longrightarrow>
      (\<exists>w1 w2.
         main tie w df = Inr w1 \<and>
         files w1 ''index.html'' = Some (fill_template (now w) ts fs template) \<and>
         main tie (w1\<lparr>now := clock2\<rparr>) df2 = Inr w2 \<and>
         files w2 ''index.html'' =
           Some (fill_template clock2 ts2 fs2 (fill_template (now w) ts fs template)))) \<and>
   (\<not> sublist ''{{last_updated}}'' page \<and> \<not> sublist ''{{team_summary_rows}}'' page \<and>
    \<not> sublist ''{{interesting_findings}}'' page \<longrightarrow>
      fill_template clock2 ts2 fs2 page = page)"
  using fill_template_unchanged[of page clock2 ts2 fs2]
  by (auto simp: OUTPUT_PATH_def main_def generate_html_def)

theorem template_is_overwritten_witness:
  "\<exists>w1 w2.
     main half_even example_world one_match = Inr w1 \<and>
     files w1 ''index.html'' = Some (one_match_page ''2024-01-02 03:04:05'') \<and>
     main half_even (w1\<lparr>now := later_clock\<rparr>) missing_goal_example = Inr w2 \<and>
     files w2 ''index.html'' = Some (one_match_page ''2024-01-02 03:04:05'')"
proof -
  let ?page = "one_match_page ''2024-01-02 03:04:05''"
  let ?ts2 = "[\<lparr>team = ''A'', matches_played = 1, total_goals_for = Float64 2,
            total_goals_against = Float64 0, total_wins = 1, win_rate = Fin 100\<rparr>,
           \<lparr>team = ''B'', matches_played = 1, total_goals_for = Float64 0,
            total_goals_against = Float64 2, total_wins = 0, win_rate = Fin 0\<rparr>,
           \<lparr>team = ''C'', matches_played = 1, total_goals_for = Float64 0,
            total_goals_against = Float64 1, total_wins = 0, win_rate = Fin 0\<rparr>,
           \<lparr>team = ''D'', matches_played = 1, total_goals_for = Float64 1,
            total_goals_against = Float64 0, total_wins = 0, win_rate = Fin 0\<rparr>]"
  have f: "files example_world ''index.html'' = Some example_template"
    by (simp add: example_world_def)
  have wr: "writable example_world ''index.html''" by (simp add: example_world_def)
  have c: "now example_world = example_clock" by (simp add: example_world_def)
  have run1: "fetch_and_process_data half_even one_match = Inr ([row_A, row_B], [one_match_finding])"
    by (simp add: one_match_run one_match_finding_def)
  have run2: "fetch_and_process_data half_even missing_goal_example =
     Inr (?ts2, [''The team with the highest win rate is A with a win rate of 1.00.''])"
    by (simp add: missing_goal_example_def run_defs)
  have page: "fill_template (now example_world) [row_A, row_B] [one_match_finding]
      example_template = ?page"
    by (simp add: c fill_one_match strftime_example_clock)
  have b: "CHR ''{'' \<notin> set ?page"
    by (simp add: one_match_page_def no_brace_in_table)
  have gone: "\<not> sublist ''{{last_updated}}'' ?page" "\<not> sublist ''{{team_summary_rows}}'' ?page"
    "\<not> sublist ''{{interesting_findings}}'' ?page"
    using b set_mono_sublist[of "''{{last_updated}}''" ?page]
      set_mono_sublist[of "''{{team_summary_rows}}''" ?page]
      set_mono_sublist[of "''{{interesting_findings}}''" ?page]
    by auto
  from template_is_overwritten[of example_world example_template half_even one_match
      "[row_A, row_B]" "[one_match_finding]" missing_goal_example ?ts2
      "[''The team with the highest win rate is A with a win rate of 1.00.'']" later_clock ?page]
    f wr run1 run2 gone
  obtain w1 w2 where
    "main half_even example_world one_match = Inr w1"
    "files w1 ''index.html'' = Some ?page"
    "main half_even (w1\<lparr>now := later_clock\<rparr>) missing_goal_example = Inr w2"
    "files w2 ''index.html'' = Some (fill_template later_clock ?ts2
       [''The team with the highest win rate is A with a win rate of 1.00.''] ?page)"
    and "fill_template later_clock ?ts2
       [''The team with the highest win rate is A with a win rate of 1.00.''] ?page = ?page"
    unfolding page by blast
  then show ?thesis by auto
qed

end
